theory Spec2Isabelle
  imports Complex_Main "HOL-Library.Product_Lexorder" "HOL-Library.Multiset"
begin

section \<open>Streamflow statistics and metrics (program\_10.py)\<close>

text \<open>
  The program computes descriptive statistics of daily streamflow with pandas and numpy.
  A column of a DataFrame holds 64-bit floats in which the value not-a-number marks a
  missing reading. The embedding takes float arithmetic as exact arithmetic on the reals:
  a reading is a real number or the missing marker, and a computed value is a real
  number, one of the two infinities or not-a-number. Rounding, overflow and the sign of
  zero are outside the model. The pandas and numpy operations the program calls are
  modelled by the functions below, one function for each operation; none of them raises
  on a numeric Series, so none of them has an error result.
\<close>

subsection \<open>Float results\<close>

datatype pyfloat = Fin real | PInf | NInf | NaN

text \<open>numpy's float division: no exception, a zero divisor gives an infinity or NaN.\<close>

fun fdiv :: "pyfloat \<Rightarrow> pyfloat \<Rightarrow> pyfloat" where
  "fdiv NaN _ = NaN"
| "fdiv _ NaN = NaN"
| "fdiv (Fin a) (Fin b) =
     (if b \<noteq> 0 then Fin (a / b)
      else if a = 0 then NaN
      else if 0 < a then PInf else NInf)"
| "fdiv (Fin a) PInf = Fin 0"
| "fdiv (Fin a) NInf = Fin 0"
| "fdiv PInf (Fin b) = (if 0 \<le> b then PInf else NInf)"
| "fdiv NInf (Fin b) = (if 0 \<le> b then NInf else PInf)"
| "fdiv PInf PInf = NaN"
| "fdiv PInf NInf = NaN"
| "fdiv NInf PInf = NaN"
| "fdiv NInf NInf = NaN"

fun fmul :: "pyfloat \<Rightarrow> pyfloat \<Rightarrow> pyfloat" where
  "fmul NaN _ = NaN"
| "fmul _ NaN = NaN"
| "fmul (Fin a) (Fin b) = Fin (a * b)"
| "fmul (Fin a) PInf = (if a = 0 then NaN else if 0 < a then PInf else NInf)"
| "fmul (Fin a) NInf = (if a = 0 then NaN else if 0 < a then NInf else PInf)"
| "fmul PInf (Fin b) = (if b = 0 then NaN else if 0 < b then PInf else NInf)"
| "fmul NInf (Fin b) = (if b = 0 then NaN else if 0 < b then NInf else PInf)"
| "fmul PInf PInf = PInf"
| "fmul PInf NInf = NInf"
| "fmul NInf PInf = NInf"
| "fmul NInf NInf = PInf"

fun fadd :: "pyfloat \<Rightarrow> pyfloat \<Rightarrow> pyfloat" where
  "fadd NaN _ = NaN"
| "fadd _ NaN = NaN"
| "fadd (Fin a) (Fin b) = Fin (a + b)"
| "fadd (Fin a) PInf = PInf"
| "fadd (Fin a) NInf = NInf"
| "fadd PInf (Fin b) = PInf"
| "fadd NInf (Fin b) = NInf"
| "fadd PInf PInf = PInf"
| "fadd PInf NInf = NaN"
| "fadd NInf PInf = NaN"
| "fadd NInf NInf = NInf"

text \<open>The comparison \<open>a > b\<close> of floats: false as soon as one side is NaN.\<close>

fun fgt :: "pyfloat \<Rightarrow> pyfloat \<Rightarrow> bool" where
  "fgt NaN _ = False"
| "fgt _ NaN = False"
| "fgt (Fin a) (Fin b) = (b < a)"
| "fgt (Fin a) PInf = False"
| "fgt (Fin a) NInf = True"
| "fgt PInf (Fin b) = True"
| "fgt NInf (Fin b) = False"
| "fgt PInf PInf = False"
| "fgt PInf NInf = True"
| "fgt NInf PInf = False"
| "fgt NInf NInf = False"

subsection \<open>A Series of discharge readings\<close>

text \<open>
  A Series of readings in date order; \<open>None\<close> is the missing marker (NaN). The
  reductions of pandas (\<open>sum\<close>, \<open>mean\<close>) skip the missing entries.
\<close>

type_synonym series = "real option list"

fun present :: "series \<Rightarrow> real list" where
  "present [] = []"
| "present (None # s) = present s"
| "present (Some v # s) = v # present s"

definition dropna :: "series \<Rightarrow> series" where
  "dropna s = map Some (present s)"

definition series_sum :: "series \<Rightarrow> real" where
  "series_sum s = sum_list (present s)"

definition series_mean :: "series \<Rightarrow> pyfloat" where
  "series_mean s = fdiv (Fin (sum_list (present s))) (Fin (real (length (present s))))"

text \<open>\<open>s > m\<close>: an elementwise comparison, false at a missing entry.\<close>

definition series_gt :: "series \<Rightarrow> pyfloat \<Rightarrow> bool list" where
  "series_gt s m = map (\<lambda>v. case v of None \<Rightarrow> False | Some x \<Rightarrow> fgt (Fin x) m) s"

definition bool_sum :: "bool list \<Rightarrow> nat" where
  "bool_sum bs = length (filter (\<lambda>b. b) bs)"

text \<open>
  \<open>s.diff()\<close>: the first entry is missing, every other entry is the reading minus
  the one before it, missing when one of the two is.
\<close>

definition sub_opt :: "real option \<Rightarrow> real option \<Rightarrow> real option" where
  "sub_opt a b = (case a of None \<Rightarrow> None
                  | Some x \<Rightarrow> (case b of None \<Rightarrow> None | Some y \<Rightarrow> Some (x - y)))"

fun diff_from :: "real option \<Rightarrow> series \<Rightarrow> series" where
  "diff_from p [] = []"
| "diff_from p (x # s) = sub_opt x p # diff_from x s"

definition diff :: "series \<Rightarrow> series" where
  "diff s = (case s of [] \<Rightarrow> [] | x # r \<Rightarrow> None # diff_from x r)"

definition abs_series :: "series \<Rightarrow> series" where
  "abs_series s = map (map_option abs) s"

subsection \<open>Metric functions\<close>

definition CalcTqmean :: "series \<Rightarrow> pyfloat" where
  "CalcTqmean Qvalues0 =
     (let Qvalues = dropna Qvalues0;
          T = length Qvalues
      in fdiv (Fin (real (bool_sum (series_gt Qvalues (series_mean Qvalues))))) (Fin (real T)))"

definition CalcRBindex :: "series \<Rightarrow> pyfloat" where
  "CalcRBindex Qvalues0 =
     (let Qvalues = dropna Qvalues0;
          sfc = diff Qvalues;
          Qs = series_sum (abs_series sfc);
          Qt = series_sum Qvalues
      in fdiv (Fin Qs) (Fin Qt))"

subsection \<open>Further reductions of a Series\<close>

text \<open>
  \<open>s.rolling(window=w).mean()\<close>: entry \<open>i\<close> is the mean of the \<open>w\<close> entries that end at
  \<open>i\<close>; it is missing while fewer than \<open>w\<close> entries are available, and when one of them
  is missing.
\<close>

definition window_mean :: "nat \<Rightarrow> series \<Rightarrow> nat \<Rightarrow> real option" where
  "window_mean w s i =
     (if Suc i < w then None
      else (let win = take w (drop (Suc i - w) s)
            in if length (present win) < w then None
               else Some (sum_list (present win) / real w)))"

definition rolling_mean :: "nat \<Rightarrow> series \<Rightarrow> series" where
  "rolling_mean w s = map (window_mean w s) [0..<length s]"

text \<open>\<open>s.min()\<close> and \<open>s.max()\<close> skip the missing entries and are NaN when none is present.\<close>

definition series_min :: "series \<Rightarrow> pyfloat" where
  "series_min s = (case present s of [] \<Rightarrow> NaN | x # xs \<Rightarrow> Fin (fold min xs x))"


text \<open>
  \<open>s.std()\<close>: the sample standard deviation (divisor \<open>n - 1\<close>) of the present entries,
  NaN when fewer than two are present.
\<close>

definition series_std :: "series \<Rightarrow> pyfloat" where
  "series_std s =
     (let xs = present s; n = length xs
      in if n < 2 then NaN
         else (let m = sum_list xs / real n
               in Fin (sqrt (sum_list (map (\<lambda>x. (x - m)\<^sup>2) xs) / real (n - 1)))))"


subsection \<open>7Q and the exceedance count\<close>

text \<open>
  \<open>Calc7Q\<close> ends in \<open>Qvalues.rolling(window=7).mean().min\<close>, with no call: what it
  returns is the method \<open>min\<close> bound to the Series of rolling means, not a number. A
  returned Python object is therefore a float or such a bound method.
\<close>

datatype pyobject = Float pyfloat | Bound_min series

definition Calc7Q :: "series \<Rightarrow> pyobject" where
  "Calc7Q Qvalues0 =
     (let Qvalues = dropna Qvalues0;
          val7Q = Bound_min (rolling_mean 7 Qvalues)
      in val7Q)"


text \<open>
  The coefficient of variation is computed in place by \<open>GetAnnualStatistics\<close> and
  \<open>GetMonthlyStatistics\<close>, for every bucket: \<open>(sd / mean) * 100\<close>.
\<close>

definition Coeff_Var :: "series \<Rightarrow> pyfloat" where
  "Coeff_Var Q = (let sd = series_std Q in fmul (fdiv sd (series_mean Q)) (Fin 100))"

subsection \<open>Dates and observations\<close>

record date =
  year :: int
  month :: nat
  day :: nat

definition date_key :: "date \<Rightarrow> int \<times> nat \<times> nat" where
  "date_key d = (year d, month d, day d)"


definition leap_year :: "int \<Rightarrow> bool" where
  "leap_year y = (y mod 4 = 0 \<and> (y mod 100 \<noteq> 0 \<or> y mod 400 = 0))"

definition days_in_month :: "int \<Rightarrow> nat \<Rightarrow> nat" where
  "days_in_month y m =
     (if m = 2 then (if leap_year y then 29 else 28)
      else if m = 4 \<or> m = 6 \<or> m = 9 \<or> m = 11 then 30 else 31)"


text \<open>One row of the DataFrame that \<open>ReadData\<close> returns; \<open>Date\<close> is the index.\<close>

record obs =
  agency_cd :: string
  site_no :: int
  Date :: date
  Discharge :: "real option"
  Quality :: string

type_synonym dataframe = "obs list"




subsection \<open>Resampling\<close>




definition sort_index :: "dataframe \<Rightarrow> dataframe" where
  "sort_index df = sort_key (\<lambda>r. date_key (Date r)) df"


definition month_index :: "date \<Rightarrow> int" where
  "month_index d = year d * 12 + int (month d) - 1"

definition month_end :: "int \<Rightarrow> date" where
  "month_end k =
     \<lparr>year = k div 12, month = nat (k mod 12) + 1,
      day = days_in_month (k div 12) (nat (k mod 12) + 1)\<rparr>"

definition resample_M :: "dataframe \<Rightarrow> (date \<times> dataframe) list" where
  "resample_M df =
     (case sort_index df of
        [] \<Rightarrow> []
      | x # r \<Rightarrow>
          map (\<lambda>k. (month_end k, filter (\<lambda>r. month_index (Date r) = k) (x # r)))
              [month_index (Date x) .. month_index (Date (last (x # r)))])"

subsection \<open>The annual and monthly tables\<close>



text \<open>
  A row of \<open>MoDataDF\<close> (index: the last day of the month) and of \<open>MonthlyAverages\<close>
  (index: 1 to 12).
\<close>

record 'i mo_row =
  Mo_index :: 'i
  Mo_site_no :: pyfloat
  Mo_Mean_Flow :: pyfloat
  Mo_Coeff_Variantion :: pyfloat
  Mo_TQmean :: pyfloat
  Mo_RB_Index :: pyfloat

definition GetMonthlyStatistics :: "dataframe \<Rightarrow> date mo_row list" where
  "GetMonthlyStatistics DataDF =
     map (\<lambda>(label, bucket).
            (let Q = map Discharge bucket
             in \<lparr>Mo_index = label,
                 Mo_site_no = series_mean (map (\<lambda>r. Some (real_of_int (site_no r))) bucket),
                 Mo_Mean_Flow = series_mean Q,
                 Mo_Coeff_Variantion = Coeff_Var Q,
                 Mo_TQmean = CalcTqmean Q,
                 Mo_RB_Index = CalcRBindex Q\<rparr>))
         (resample_M DataDF)"

subsection \<open>Monthly averages\<close>

text \<open>
  The mean of a column of a table skips NaN; the column may hold infinities.
  \<open>step_slice m k xs\<close> is the positional slice \<open>xs[m::k]\<close>.
\<close>

definition column_mean :: "pyfloat list \<Rightarrow> pyfloat" where
  "column_mean c =
     (let vs = filter (\<lambda>v. v \<noteq> NaN) c
      in fdiv (foldl fadd (Fin 0) vs) (Fin (real (length vs))))"

definition step_slice :: "nat \<Rightarrow> nat \<Rightarrow> 'a list \<Rightarrow> 'a list" where
  "step_slice m k xs =
     map (\<lambda>i. xs ! i) (filter (\<lambda>i. m \<le> i \<and> (i - m) mod k = 0) [0..<length xs])"

definition index :: "(nat \<times> nat) list" where
  "index = [(0,3),(1,4),(2,5),(3,6),(4,7),(5,8),(6,9),(7,10),(8,11),(9,0),(10,1),(11,2)]"

text \<open>
  \<open>GetMonthlyAverages\<close> builds a table of twelve rows of zeros with the index 1 to 12 and
  fills it cell by cell, one loop for each column; the table is passed from loop to loop.
\<close>

definition GetMonthlyAverages :: "'i mo_row list \<Rightarrow> nat mo_row list" where
  "GetMonthlyAverages MoDataDF =
     (let M0 = map (\<lambda>i. \<lparr>Mo_index = i, Mo_site_no = Fin 0, Mo_Mean_Flow = Fin 0,
                          Mo_Coeff_Variantion = Fin 0, Mo_TQmean = Fin 0, Mo_RB_Index = Fin 0\<rparr>)
                   [1..<13];
          M1 = fold (\<lambda>n M. M[n := (M ! n)\<lparr>Mo_site_no :=
                       column_mean (step_slice 0 12 (map Mo_site_no MoDataDF))\<rparr>]) [0..<12] M0;
          M2 = fold (\<lambda>(n, m) M. M[n := (M ! n)\<lparr>Mo_Mean_Flow :=
                       column_mean (step_slice m 12 (map Mo_Mean_Flow MoDataDF))\<rparr>]) index M1;
          M3 = fold (\<lambda>(n, m) M. M[n := (M ! n)\<lparr>Mo_Coeff_Variantion :=
                       column_mean (step_slice m 12 (map Mo_Coeff_Variantion MoDataDF))\<rparr>]) index M2;
          M4 = fold (\<lambda>(n, m) M. M[n := (M ! n)\<lparr>Mo_TQmean :=
                       column_mean (step_slice m 12 (map Mo_TQmean MoDataDF))\<rparr>]) index M3;
          M5 = fold (\<lambda>(n, m) M. M[n := (M ! n)\<lparr>Mo_RB_Index :=
                       column_mean (step_slice m 12 (map Mo_RB_Index MoDataDF))\<rparr>]) index M4
      in M5)"

subsection \<open>The metrics in the specification's words\<close>

text \<open>
  The R-B Index: the sum of the absolute differences between consecutive present values,
  divided by the sum of all present values. The 7Q: the minimum of the rolling 7-day means
  of the present values, not-a-number when there are fewer than seven of them.
  \<open>RBindex_spec\<close> and \<open>Calc7Q_spec\<close> follow these words and are compared with
  \<open>CalcRBindex\<close> and \<open>Calc7Q\<close> below. \<open>scale\<close> multiplies every reading of a bucket by a
  factor.
\<close>

definition path_length :: "real list \<Rightarrow> real" where
  "path_length xs = sum_list (map (\<lambda>(a, b). \<bar>b - a\<bar>) (zip xs (tl xs)))"

definition RBindex_spec :: "real list \<Rightarrow> pyfloat" where
  "RBindex_spec xs = fdiv (Fin (path_length xs)) (Fin (sum_list xs))"

definition Calc7Q_spec :: "series \<Rightarrow> pyfloat" where
  "Calc7Q_spec Q = series_min (rolling_mean 7 (dropna Q))"


text \<open>
  The rows of a monthly table that belong to calendar month \<open>k\<close>, and the tables whose
  rows are consecutive months starting with an October (the program clips its data to a
  period that starts on October 1).
\<close>

definition of_month :: "nat \<Rightarrow> date mo_row list \<Rightarrow> date mo_row list" where
  "of_month k T = filter (\<lambda>r. month (Mo_index r) = k) T"

definition october_aligned :: "date mo_row list \<Rightarrow> bool" where
  "october_aligned T =
     (map (\<lambda>r. month (Mo_index r)) T = map (\<lambda>i. (i + 9) mod 12 + 1) [0..<length T])"

subsection \<open>Sample data\<close>


text \<open>Two years of monthly rows, October 2000 to September 2002; the mean flow of row i is i.\<close>

definition two_year_table :: "date mo_row list" where
  "two_year_table =
     map (\<lambda>i. \<lparr>Mo_index = month_end (24009 + int i), Mo_site_no = Fin 3335000,
               Mo_Mean_Flow = Fin (real i), Mo_Coeff_Variantion = Fin 50,
               Mo_TQmean = Fin (1 / 4), Mo_RB_Index = Fin (1 / 10)\<rparr>)
         [0..<24]"

text \<open>One year of monthly rows, January to December 2001; the mean flow is the month's number.\<close>

definition january_table :: "date mo_row list" where
  "january_table =
     map (\<lambda>i. \<lparr>Mo_index = month_end (24012 + int i), Mo_site_no = Fin 3335000,
               Mo_Mean_Flow = Fin (real (i + 1)), Mo_Coeff_Variantion = Fin 50,
               Mo_TQmean = Fin (1 / 4), Mo_RB_Index = Fin (1 / 10)\<rparr>)
         [0..<12]"

section \<open>Properties\<close>

subsection \<open>Series lemmas\<close>

lemma present_dropna: "present (dropna s) = present s"
  by (induction s rule: present.induct) (simp_all add: dropna_def)




lemma present_map_Some: "present (map Some xs) = xs"
  by (induction xs) simp_all

lemma present_abs_diff_from:
  "present (abs_series (diff_from (Some x) (map Some r))) =
     map (\<lambda>(a, b). \<bar>b - a\<bar>) (zip (x # r) r)"
  by (induction r arbitrary: x) (simp_all add: abs_series_def sub_opt_def)

lemma path_of_diff:
  "series_sum (abs_series (diff (map Some xs))) = path_length xs"
proof (cases xs)
  case Nil
  then show ?thesis by (simp add: series_sum_def abs_series_def diff_def path_length_def)
next
  case (Cons x r)
  have "present (abs_series (diff (map Some (x # r)))) =
          present (abs_series (diff_from (Some x) (map Some r)))"
    by (simp add: diff_def abs_series_def)
  then show ?thesis
    using Cons by (simp add: series_sum_def present_abs_diff_from path_length_def)
qed

lemma CalcRBindex_spec: "CalcRBindex Q = RBindex_spec (present Q)"
  unfolding CalcRBindex_def Let_def dropna_def path_of_diff RBindex_spec_def
  by (simp only: series_sum_def present_map_Some)






subsection \<open>Tqmean\<close>






subsection \<open>R-B Index\<close>

text \<open>
  Claim C8. CalcRBindex drops the missing entries first and takes the day-to-day
  differences of what remains: its result is the R-B Index of the compacted sequence of
  present values, and equals its own result on the bucket with the missing entries
  removed. On [10, missing, 30] this is |30 - 10| / 40 = 0.5, where differencing before
  dropping would lose both differences and give 0.
\<close>

theorem CalcRBindex_drop_then_diff:
  "CalcRBindex Q = RBindex_spec (present Q)
   \<and> CalcRBindex Q = CalcRBindex (dropna Q)
   \<and> CalcRBindex [Some 10, None, Some 30] = Fin (1 / 2)
   \<and> fdiv (Fin (series_sum (abs_series (diff [Some 10, None, Some 30]))))
           (Fin (series_sum [Some 10, None, Some 30])) = Fin 0"
proof (intro conjI)
  show "CalcRBindex Q = RBindex_spec (present Q)" by (rule CalcRBindex_spec)
  show "CalcRBindex Q = CalcRBindex (dropna Q)"
    by (simp add: CalcRBindex_spec present_dropna)
  show "CalcRBindex [Some 10, None, Some 30] = Fin (1 / 2)"
    by (simp add: CalcRBindex_spec RBindex_spec_def path_length_def)
  show "fdiv (Fin (series_sum (abs_series (diff [Some 10, None, Some 30]))))
           (Fin (series_sum [Some 10, None, Some 30])) = Fin 0"
    by (simp add: series_sum_def abs_series_def diff_def sub_opt_def)
qed


text \<open>
  Claim C9. For a bucket with exactly one present value v, v not 0, CalcRBindex returns 0:
  the only entry of the differenced series is missing, so the numerator is 0.
\<close>

theorem CalcRBindex_single:
  "present Q = [v] \<Longrightarrow> v \<noteq> 0 \<Longrightarrow> CalcRBindex Q = Fin 0"
  by (simp add: CalcRBindex_def Let_def dropna_def diff_def abs_series_def series_sum_def)

theorem CalcRBindex_single_witness:
  "present [None, Some (5::real), None] = [5] \<and> (5::real) \<noteq> 0
   \<and> CalcRBindex [None, Some 5, None] = Fin 0"
  using CalcRBindex_single [of "[None, Some 5, None]" 5] by simp




subsection \<open>7Q\<close>

text \<open>
  Claim C1. For a bucket with at least 7 present values Calc7Q should return the minimum
  of the rolling 7-day means of the present values, and not-a-number for a bucket with
  fewer. The function returns the method \<open>min\<close> of the Series of rolling means without
  calling it: its result is never a float. On the bucket 1, 2, ..., 7 it returns the
  method bound to the rolling means, whose minimum, the value the claim asks for, is 4.
\<close>

theorem Calc7Q_returns_bound_method:
  "Calc7Q Q = Bound_min (rolling_mean 7 (dropna Q))
   \<and> Calc7Q Q \<noteq> Float v
   \<and> Calc7Q [Some 1, Some 2, Some 3, Some 4, Some 5, Some 6, Some 7] =
       Bound_min [None, None, None, None, None, None, Some 4]
   \<and> Calc7Q_spec [Some 1, Some 2, Some 3, Some 4, Some 5, Some 6, Some 7] = Fin 4"
  by (simp add: Calc7Q_def Calc7Q_spec_def Let_def dropna_def rolling_mean_def window_mean_def
      series_min_def upt_rec)

subsection \<open>Clipping\<close>




subsection \<open>Division by zero\<close>



lemma all_zero_sum: "list_all (\<lambda>v. v = 0) xs \<Longrightarrow> sum_list xs = (0::real)"
  by (induction xs) simp_all











subsection \<open>Water years\<close>





















subsection \<open>Monthly averages\<close>

lemma mod12_shift: "(i + 9) mod 12 = (m + 9) mod 12 \<longleftrightarrow> i mod 12 = m mod (12::nat)"
proof
  assume "(i + 9) mod 12 = (m + 9) mod 12"
  then have "(i + 9 + 3) mod 12 = (m + 9 + 3) mod 12"
    by (rule mod_add_cong) simp
  then show "i mod 12 = m mod 12" by (simp add: add.assoc)
next
  assume "i mod 12 = m mod 12"
  then show "(i + 9) mod 12 = (m + 9) mod 12" by (rule mod_add_cong) simp
qed

lemma mod12_step: "m < 12 \<Longrightarrow> (m \<le> i \<and> (i - m) mod 12 = 0) \<longleftrightarrow> i mod 12 = (m::nat)"
proof
  assume m: "m < 12" and "m \<le> i \<and> (i - m) mod 12 = 0"
  then obtain q where "i - m = 12 * q" by auto
  then have "i = m + 12 * q" using \<open>m \<le> i \<and> _\<close> by linarith
  then show "i mod 12 = m" using m by simp
next
  assume m: "m < 12" and e: "i mod 12 = m"
  have i: "i = 12 * (i div 12) + m" using e by (metis mult_div_mod_eq)
  then have "m \<le> i" by linarith
  moreover have "i - m = 12 * (i div 12)" using i by linarith
  ultimately show "m \<le> i \<and> (i - m) mod 12 = 0" by simp
qed

lemma mod12_slot:
  "m < 12 \<Longrightarrow> (m \<le> i \<and> (i - m) mod 12 = 0) \<longleftrightarrow> (i + 9) mod 12 + 1 = (m + 9) mod 12 + (1::nat)"
  by (simp add: mod12_step mod12_shift)

lemma step_slice_month:
  assumes "october_aligned T" and "m < 12"
  shows "step_slice m 12 (map f T) = map f (of_month ((m + 9) mod 12 + 1) T)"
proof -
  let ?n = "length T"
  let ?k = "(m + 9) mod 12 + 1"
  have mo: "month (Mo_index (T ! i)) = (i + 9) mod 12 + 1" if "i < ?n" for i
  proof -
    have "map (\<lambda>r. month (Mo_index r)) T ! i = map (\<lambda>i. (i + 9) mod 12 + 1) [0..<?n] ! i"
      using assms(1) by (simp only: october_aligned_def)
    then show ?thesis using that by simp
  qed
  have sel: "filter (\<lambda>i. m \<le> i \<and> (i - m) mod 12 = 0) [0..<?n] =
             filter (\<lambda>i. month (Mo_index (T ! i)) = ?k) [0..<?n]"
    by (rule filter_cong) (simp_all add: mo mod12_slot [OF assms(2)])
  have "of_month ?k T = map (\<lambda>i. T ! i) (filter (\<lambda>i. month (Mo_index (T ! i)) = ?k) [0..<?n])"
  proof -
    have "of_month ?k T = of_month ?k (map (\<lambda>i. T ! i) [0..<?n])"
      by (simp only: map_nth)
    then show ?thesis by (simp add: of_month_def filter_map o_def)
  qed
  then have "map f (of_month ?k T) =
       map (\<lambda>i. f (T ! i)) (filter (\<lambda>i. month (Mo_index (T ! i)) = ?k) [0..<?n])"
    by (simp add: o_def)
  moreover have "step_slice m 12 (map f T) =
       map (\<lambda>i. f (T ! i)) (filter (\<lambda>i. m \<le> i \<and> (i - m) mod 12 = 0) [0..<?n])"
    by (simp add: step_slice_def)
  ultimately show ?thesis by (simp only: sel)
qed

lemma upt_1_13: "[1..<13] = [1, 2, 3, 4, 5, 6, 7, 8, 9, 10, 11, 12::nat]"
  by (simp add: upt_rec)

lemma upt_0_12: "[0..<12] = [0, 1, 2, 3, 4, 5, 6, 7, 8, 9, 10, 11::nat]"
  by (simp add: upt_rec)

lemma list_update_numeral: "(x # xs)[numeral k := y] = x # xs[pred_numeral k := y]"
  by (simp add: numeral_eq_Suc)

lemma GetMonthlyAverages_rows:
  "GetMonthlyAverages T =
     map (\<lambda>(k, m). \<lparr>Mo_index = k,
                     Mo_site_no = column_mean (step_slice 0 12 (map Mo_site_no T)),
                     Mo_Mean_Flow = column_mean (step_slice m 12 (map Mo_Mean_Flow T)),
                     Mo_Coeff_Variantion = column_mean (step_slice m 12 (map Mo_Coeff_Variantion T)),
                     Mo_TQmean = column_mean (step_slice m 12 (map Mo_TQmean T)),
                     Mo_RB_Index = column_mean (step_slice m 12 (map Mo_RB_Index T))\<rparr>)
       [(1, 3), (2, 4), (3, 5), (4, 6), (5, 7), (6, 8), (7, 9), (8, 10), (9, 11),
        (10, 0), (11, 1), (12, 2)]"
  unfolding GetMonthlyAverages_def Let_def index_def upt_1_13 upt_0_12
  by (simp add: list_update_numeral)

lemma two_year_months:
  "map (\<lambda>r. month (Mo_index r)) two_year_table =
     [10, 11, 12, 1, 2, 3, 4, 5, 6, 7, 8, 9, 10, 11, 12, 1, 2, 3, 4, 5, 6, 7, 8, 9]"
  by (simp add: two_year_table_def upt_rec month_end_def)

lemma two_year_aligned: "october_aligned two_year_table"
proof -
  have "length two_year_table = 24" by (simp add: two_year_table_def)
  then show ?thesis
    unfolding october_aligned_def two_year_months by (simp add: upt_rec)
qed

lemma two_year_january:
  "map Mo_Mean_Flow (of_month 1 two_year_table) = [Fin 3, Fin 15]"
  by (simp add: of_month_def two_year_table_def upt_rec month_end_def)

lemma two_year_october:
  "map Mo_Mean_Flow (of_month 10 two_year_table) = [Fin 0, Fin 12]"
  by (simp add: of_month_def two_year_table_def upt_rec month_end_def)

lemma two_year_january_mean:
  "column_mean (map Mo_Mean_Flow (of_month 1 two_year_table)) = Fin 9"
  unfolding two_year_january by (simp add: column_mean_def)

lemma two_year_october_mean:
  "column_mean (map Mo_Mean_Flow (of_month 10 two_year_table)) = Fin 6"
  unfolding two_year_october by (simp add: column_mean_def)

lemma january_months:
  "map (\<lambda>r. month (Mo_index r)) january_table = [1, 2, 3, 4, 5, 6, 7, 8, 9, 10, 11, 12]"
  by (simp add: january_table_def upt_rec month_end_def)

lemma january_january_mean:
  "column_mean (map Mo_Mean_Flow (of_month 1 january_table)) = Fin 1"
proof -
  have "map Mo_Mean_Flow (of_month 1 january_table) = [Fin 1]"
    by (simp add: of_month_def january_table_def upt_rec month_end_def)
  then show ?thesis by (simp add: column_mean_def)
qed

lemma january_first_row:
  "Mo_index (GetMonthlyAverages january_table ! 0) = 1
   \<and> Mo_Mean_Flow (GetMonthlyAverages january_table ! 0) = Fin 4"
proof -
  have r: "GetMonthlyAverages january_table ! 0 =
      \<lparr>Mo_index = 1,
       Mo_site_no = column_mean (step_slice 0 12 (map Mo_site_no january_table)),
       Mo_Mean_Flow = column_mean (step_slice 3 12 (map Mo_Mean_Flow january_table)),
       Mo_Coeff_Variantion = column_mean (step_slice 3 12 (map Mo_Coeff_Variantion january_table)),
       Mo_TQmean = column_mean (step_slice 3 12 (map Mo_TQmean january_table)),
       Mo_RB_Index = column_mean (step_slice 3 12 (map Mo_RB_Index january_table))\<rparr>"
    unfolding GetMonthlyAverages_rows by simp
  have s: "step_slice 3 12 (map Mo_Mean_Flow january_table) = [Fin 4]"
    by (simp add: step_slice_def january_table_def upt_rec)
  have m: "column_mean [Fin 4] = Fin 4" by (simp add: column_mean_def)
  show ?thesis unfolding r s m by simp
qed

text \<open>
  Claim C2, as amended. For a monthly table whose rows are consecutive months starting
  with an October, GetMonthlyAverages returns twelve rows with the index 1 to 12, in
  calendar order, January first: in row k each metric is the mean of the values of
  calendar month k over all the years of the table, and the site number is the mean of
  the Octobers' site numbers. The October means are in row 10.
\<close>

theorem GetMonthlyAverages_calendar_months:
  assumes "october_aligned T"
  shows "GetMonthlyAverages T =
           map (\<lambda>k. \<lparr>Mo_index = k,
                     Mo_site_no = column_mean (map Mo_site_no (of_month 10 T)),
                     Mo_Mean_Flow = column_mean (map Mo_Mean_Flow (of_month k T)),
                     Mo_Coeff_Variantion = column_mean (map Mo_Coeff_Variantion (of_month k T)),
                     Mo_TQmean = column_mean (map Mo_TQmean (of_month k T)),
                     Mo_RB_Index = column_mean (map Mo_RB_Index (of_month k T))\<rparr>)
               [1..<13]"
proof -
  have s0: "step_slice 0 12 (map f T) = map f (of_month 10 T)" for f :: "date mo_row \<Rightarrow> pyfloat"
    using step_slice_month [OF assms, of 0 f] by simp
  have s1: "step_slice 1 12 (map f T) = map f (of_month 11 T)" for f :: "date mo_row \<Rightarrow> pyfloat"
    using step_slice_month [OF assms, of 1 f] by simp
  have s2: "step_slice 2 12 (map f T) = map f (of_month 12 T)" for f :: "date mo_row \<Rightarrow> pyfloat"
    using step_slice_month [OF assms, of 2 f] by simp
  have s3: "step_slice 3 12 (map f T) = map f (of_month 1 T)" for f :: "date mo_row \<Rightarrow> pyfloat"
    using step_slice_month [OF assms, of 3 f] by simp
  have s4: "step_slice 4 12 (map f T) = map f (of_month 2 T)" for f :: "date mo_row \<Rightarrow> pyfloat"
    using step_slice_month [OF assms, of 4 f] by (simp add: numeral_2_eq_2)
  have s5: "step_slice 5 12 (map f T) = map f (of_month 3 T)" for f :: "date mo_row \<Rightarrow> pyfloat"
    using step_slice_month [OF assms, of 5 f] by simp
  have s6: "step_slice 6 12 (map f T) = map f (of_month 4 T)" for f :: "date mo_row \<Rightarrow> pyfloat"
    using step_slice_month [OF assms, of 6 f] by simp
  have s7: "step_slice 7 12 (map f T) = map f (of_month 5 T)" for f :: "date mo_row \<Rightarrow> pyfloat"
    using step_slice_month [OF assms, of 7 f] by simp
  have s8: "step_slice 8 12 (map f T) = map f (of_month 6 T)" for f :: "date mo_row \<Rightarrow> pyfloat"
    using step_slice_month [OF assms, of 8 f] by simp
  have s9: "step_slice 9 12 (map f T) = map f (of_month 7 T)" for f :: "date mo_row \<Rightarrow> pyfloat"
    using step_slice_month [OF assms, of 9 f] by simp
  have s10: "step_slice 10 12 (map f T) = map f (of_month 8 T)" for f :: "date mo_row \<Rightarrow> pyfloat"
    using step_slice_month [OF assms, of 10 f] by simp
  have s11: "step_slice 11 12 (map f T) = map f (of_month 9 T)" for f :: "date mo_row \<Rightarrow> pyfloat"
    using step_slice_month [OF assms, of 11 f] by simp
  show ?thesis
    unfolding GetMonthlyAverages_rows upt_1_13
    by (simp only: list.map prod.case s0 s1 s2 s3 s4 s5 s6 s7 s8 s9 s10 s11)
qed

theorem GetMonthlyAverages_calendar_months_witness:
  "october_aligned two_year_table
   \<and> map Mo_index (GetMonthlyAverages two_year_table) = [1, 2, 3, 4, 5, 6, 7, 8, 9, 10, 11, 12]
   \<and> Mo_Mean_Flow (GetMonthlyAverages two_year_table ! 9) = Fin 6
   \<and> column_mean (map Mo_Mean_Flow (of_month 10 two_year_table)) = Fin 6"
proof -
  note t = GetMonthlyAverages_calendar_months [OF two_year_aligned, unfolded upt_1_13]
  have a: "map Mo_index (GetMonthlyAverages two_year_table) =
             [1, 2, 3, 4, 5, 6, 7, 8, 9, 10, 11, 12]"
    unfolding t by simp
  have b: "Mo_Mean_Flow (GetMonthlyAverages two_year_table ! 9) =
             column_mean (map Mo_Mean_Flow (of_month 10 two_year_table))"
    unfolding t by simp
  show ?thesis
    using two_year_aligned a b two_year_october_mean by simp
qed

text \<open>
  Claim C2 as stated fails on two years of monthly rows that start in October: the first
  row of the result has index 1 and the mean of the two Januaries (9), not the mean of
  the two Octobers (6). On a table that starts in January the cells are filled by
  position all the same, and the first row holds the value of April (4), not the one of
  January (1).
\<close>

theorem GetMonthlyAverages_october_first_counterexample:
  "october_aligned two_year_table
   \<and> Mo_index (GetMonthlyAverages two_year_table ! 0) = 1
   \<and> Mo_Mean_Flow (GetMonthlyAverages two_year_table ! 0) = Fin 9
   \<and> column_mean (map Mo_Mean_Flow (of_month 1 two_year_table)) = Fin 9
   \<and> column_mean (map Mo_Mean_Flow (of_month 10 two_year_table)) = Fin 6
   \<and> Mo_Mean_Flow (GetMonthlyAverages two_year_table ! 0) \<noteq>
       column_mean (map Mo_Mean_Flow (of_month 10 two_year_table))
   \<and> map (\<lambda>r. month (Mo_index r)) january_table = [1, 2, 3, 4, 5, 6, 7, 8, 9, 10, 11, 12]
   \<and> Mo_index (GetMonthlyAverages january_table ! 0) = 1
   \<and> Mo_Mean_Flow (GetMonthlyAverages january_table ! 0) = Fin 4
   \<and> column_mean (map Mo_Mean_Flow (of_month 1 january_table)) = Fin 1"
proof -
  have r: "GetMonthlyAverages two_year_table ! 0 =
      \<lparr>Mo_index = 1,
       Mo_site_no = column_mean (step_slice 0 12 (map Mo_site_no two_year_table)),
       Mo_Mean_Flow = column_mean (step_slice 3 12 (map Mo_Mean_Flow two_year_table)),
       Mo_Coeff_Variantion = column_mean (step_slice 3 12 (map Mo_Coeff_Variantion two_year_table)),
       Mo_TQmean = column_mean (step_slice 3 12 (map Mo_TQmean two_year_table)),
       Mo_RB_Index = column_mean (step_slice 3 12 (map Mo_RB_Index two_year_table))\<rparr>"
    unfolding GetMonthlyAverages_rows by simp
  have s: "step_slice 3 12 (map Mo_Mean_Flow two_year_table) = [Fin 3, Fin 15]"
    by (simp add: step_slice_def two_year_table_def upt_rec)
  have m: "column_mean [Fin 3, Fin 15] = Fin 9" by (simp add: column_mean_def)
  have a: "Mo_index (GetMonthlyAverages two_year_table ! 0) = 1" unfolding r by simp
  have b: "Mo_Mean_Flow (GetMonthlyAverages two_year_table ! 0) = Fin 9"
    unfolding r s m by simp
  have c: "Mo_Mean_Flow (GetMonthlyAverages two_year_table ! 0) \<noteq>
       column_mean (map Mo_Mean_Flow (of_month 10 two_year_table))"
    unfolding b two_year_october_mean by simp
  show ?thesis
    using two_year_aligned a b c two_year_january_mean two_year_october_mean
      january_months january_first_row january_january_mean
    by blast
qed

end
